theory Spec2Isabelle
  imports Main
begin

unbundle bit_operations_syntax

section \<open>Data model (src/state/types.ts)\<close>

text \<open>
  Strings of the program are Isabelle strings: lists of characters whose code units range
  over U+0000 .. U+00FF. Timestamps (\<^verbatim>\<open>new Date().toISOString()\<close>) are strings that the
  caller of a model function passes in as \<open>now\<close>. JavaScript numbers that hold integers
  (\<open>version\<close>, a stage's \<open>id\<close>) are \<open>int\<close>.
\<close>

datatype DocumentType = doc_rfc | doc_plan | doc_rollout

datatype Phase = phase_rfc | phase_plan | phase_rollout | phase_prompts

datatype StepId =
    rfc_problem | rfc_goals | rfc_approach | rfc_interfaces | rfc_alternatives | rfc_complete
  | plan_stages | plan_criteria | plan_complete
  | rollout_risks | rollout_observability | rollout_procedures | rollout_complete
  | prompts_generate | complete

text \<open>The string literal behind each token of the three union types.\<close>

fun documentTypeText :: "DocumentType \<Rightarrow> string" where
  "documentTypeText doc_rfc = ''rfc''"
| "documentTypeText doc_plan = ''plan''"
| "documentTypeText doc_rollout = ''rollout''"

fun phaseText :: "Phase \<Rightarrow> string" where
  "phaseText phase_rfc = ''rfc''"
| "phaseText phase_plan = ''plan''"
| "phaseText phase_rollout = ''rollout''"
| "phaseText phase_prompts = ''prompts''"

fun stepIdText :: "StepId \<Rightarrow> string" where
  "stepIdText rfc_problem = ''rfc.problem''"
| "stepIdText rfc_goals = ''rfc.goals''"
| "stepIdText rfc_approach = ''rfc.approach''"
| "stepIdText rfc_interfaces = ''rfc.interfaces''"
| "stepIdText rfc_alternatives = ''rfc.alternatives''"
| "stepIdText rfc_complete = ''rfc.complete''"
| "stepIdText plan_stages = ''plan.stages''"
| "stepIdText plan_criteria = ''plan.criteria''"
| "stepIdText plan_complete = ''plan.complete''"
| "stepIdText rollout_risks = ''rollout.risks''"
| "stepIdText rollout_observability = ''rollout.observability''"
| "stepIdText rollout_procedures = ''rollout.procedures''"
| "stepIdText rollout_complete = ''rollout.complete''"
| "stepIdText prompts_generate = ''prompts.generate''"
| "stepIdText complete = ''complete''"

record ProjectMetadata =
  name :: string
  stack :: "string list"
  constraints :: "string list"
  createdAt :: string

record CheckpointResponse =
  stepId :: string
  disagreements :: "string option"
  clarifications :: "string option"
  missedConstraints :: "string option"
  respondedAt :: string

record Approval =
  documentType :: DocumentType
  contentHash :: string
  approvedAt :: string

record Stage =
  stage_id :: int
  stage_name :: string
  deliverables :: "string list"
  dependencies :: "string list"
  acceptanceCriteria :: "string list"
  definitionOfDone :: string
  validationNotes :: string

datatype Severity = sev_low | sev_medium | sev_high | sev_critical

record Risk =
  description :: string
  severity :: Severity
  mitigation :: string

record RfcProgress =
  problem :: "string option"
  goals :: "string option"
  nonGoals :: "string option"
  approach :: "string option"
  interfaces :: "string option"
  alternatives :: "string option"
  openQuestions :: "string option"
  assumptions :: "string option"

record PlanProgress =
  stages :: "Stage list option"

record RolloutProgress =
  risks :: "Risk list option"
  observability :: "string option"
  rolloutSteps :: "string list option"
  killSwitch :: "string option"
  rollback :: "string option"
  stopConditions :: "string list option"

record DocumentProgress =
  rfc :: RfcProgress
  plan :: PlanProgress
  rollout :: RolloutProgress

type_synonym DocumentHashes = "DocumentType \<rightharpoonup> string"

record DocForgeState =
  version :: int
  project :: ProjectMetadata
  currentStep :: StepId
  checkpointResponses :: "CheckpointResponse list"
  approvals :: "Approval list"
  documentHashes :: DocumentHashes
  documentProgress :: DocumentProgress
  strictMode :: bool

definition createInitialState :: "ProjectMetadata \<Rightarrow> DocForgeState" where
  "createInitialState p =
     \<lparr> version = 1,
       project = p,
       currentStep = rfc_problem,
       checkpointResponses = [],
       approvals = [],
       documentHashes = Map.empty,
       documentProgress =
         \<lparr> rfc = \<lparr> problem = None, goals = None, nonGoals = None, approach = None,
                   interfaces = None, alternatives = None, openQuestions = None,
                   assumptions = None \<rparr>,
           plan = \<lparr> stages = None \<rparr>,
           rollout = \<lparr> risks = None, observability = None, rolloutSteps = None,
                       killSwitch = None, rollback = None, stopConditions = None \<rparr> \<rparr>,
       strictMode = False \<rparr>"

text \<open>A project used in the examples below.\<close>

definition exampleProject :: ProjectMetadata where
  "exampleProject =
     \<lparr> name = ''P'', stack = [''TS''], constraints = [], createdAt = ''2024-01-01T00:00:00.000Z'' \<rparr>"

section \<open>Step graph (src/state/machine.ts)\<close>

record StepDefinition =
  step_id :: StepId
  phase :: Phase
  label :: string
  isCheckpoint_flag :: bool
  next_step :: "StepId option"

text \<open>The table \<^verbatim>\<open>STEPS\<close>, one entry per key, in the order of the source.\<close>

fun STEPS :: "StepId \<Rightarrow> StepDefinition" where
  "STEPS rfc_problem = \<lparr> step_id = rfc_problem, phase = phase_rfc,
     label = ''Problem Statement'', isCheckpoint_flag = True, next_step = Some rfc_goals \<rparr>"
| "STEPS rfc_goals = \<lparr> step_id = rfc_goals, phase = phase_rfc,
     label = ''Goals and Non-Goals'', isCheckpoint_flag = True, next_step = Some rfc_approach \<rparr>"
| "STEPS rfc_approach = \<lparr> step_id = rfc_approach, phase = phase_rfc,
     label = ''Approach'', isCheckpoint_flag = True, next_step = Some rfc_interfaces \<rparr>"
| "STEPS rfc_interfaces = \<lparr> step_id = rfc_interfaces, phase = phase_rfc,
     label = ''Interfaces & Contracts'', isCheckpoint_flag = True, next_step = Some rfc_alternatives \<rparr>"
| "STEPS rfc_alternatives = \<lparr> step_id = rfc_alternatives, phase = phase_rfc,
     label = ''Alternatives & Tradeoffs'', isCheckpoint_flag = True, next_step = Some rfc_complete \<rparr>"
| "STEPS rfc_complete = \<lparr> step_id = rfc_complete, phase = phase_rfc,
     label = ''RFC Complete'', isCheckpoint_flag = False, next_step = Some plan_stages \<rparr>"
| "STEPS plan_stages = \<lparr> step_id = plan_stages, phase = phase_plan,
     label = ''Stage Breakdown'', isCheckpoint_flag = True, next_step = Some plan_criteria \<rparr>"
| "STEPS plan_criteria = \<lparr> step_id = plan_criteria, phase = phase_plan,
     label = ''Acceptance Criteria'', isCheckpoint_flag = True, next_step = Some plan_complete \<rparr>"
| "STEPS plan_complete = \<lparr> step_id = plan_complete, phase = phase_plan,
     label = ''Plan Complete'', isCheckpoint_flag = False, next_step = Some rollout_risks \<rparr>"
| "STEPS rollout_risks = \<lparr> step_id = rollout_risks, phase = phase_rollout,
     label = ''Risk Analysis'', isCheckpoint_flag = True, next_step = Some rollout_observability \<rparr>"
| "STEPS rollout_observability = \<lparr> step_id = rollout_observability, phase = phase_rollout,
     label = ''Observability Plan'', isCheckpoint_flag = True, next_step = Some rollout_procedures \<rparr>"
| "STEPS rollout_procedures = \<lparr> step_id = rollout_procedures, phase = phase_rollout,
     label = ''Rollout & Rollback Procedures'', isCheckpoint_flag = True,
     next_step = Some rollout_complete \<rparr>"
| "STEPS rollout_complete = \<lparr> step_id = rollout_complete, phase = phase_rollout,
     label = ''Rollout Complete'', isCheckpoint_flag = False, next_step = Some prompts_generate \<rparr>"
| "STEPS prompts_generate = \<lparr> step_id = prompts_generate, phase = phase_prompts,
     label = ''Generate Stage Prompts'', isCheckpoint_flag = False, next_step = Some complete \<rparr>"
| "STEPS complete = \<lparr> step_id = complete, phase = phase_prompts,
     label = ''All Complete'', isCheckpoint_flag = False, next_step = None \<rparr>"

definition getStep :: "StepId \<Rightarrow> StepDefinition" where
  "getStep s = STEPS s"

definition getNextStep :: "StepId \<Rightarrow> StepId option" where
  "getNextStep currentStepId = next_step (STEPS currentStepId)"

definition isCheckpoint :: "StepId \<Rightarrow> bool" where
  "isCheckpoint s = isCheckpoint_flag (STEPS s)"

definition getPhase :: "StepId \<Rightarrow> Phase" where
  "getPhase s = phase (STEPS s)"

definition getStepLabel :: "StepId \<Rightarrow> string" where
  "getStepLabel s = label (STEPS s)"

definition advanceStep :: "DocForgeState \<Rightarrow> StepId option" where
  "advanceStep state = getNextStep (currentStep state)"

text \<open>
  \<^verbatim>\<open>Array.prototype.indexOf\<close>: the position of the first element equal to \<open>x\<close>, and
  \<open>-1\<close> when there is none.
\<close>

fun indexOf :: "'a list \<Rightarrow> 'a \<Rightarrow> int" where
  "indexOf [] x = -1"
| "indexOf (y # ys) x =
     (if y = x then 0 else (let i = indexOf ys x in if i < 0 then -1 else i + 1))"

text \<open>\<^verbatim>\<open>Object.keys(STEPS)\<close>: the keys in insertion order.\<close>

definition allSteps :: "StepId list" where
  "allSteps =
     [rfc_problem, rfc_goals, rfc_approach, rfc_interfaces, rfc_alternatives, rfc_complete,
      plan_stages, plan_criteria, plan_complete,
      rollout_risks, rollout_observability, rollout_procedures, rollout_complete,
      prompts_generate, complete]"

definition getPhaseSteps :: "Phase \<Rightarrow> StepDefinition list" where
  "getPhaseSteps ph = filter (\<lambda>step. phase step = ph) (map STEPS allSteps)"

definition getRemainingSteps :: "DocForgeState \<Rightarrow> int" where
  "getRemainingSteps state =
     int (length allSteps) - indexOf allSteps (currentStep state) - 1"

text \<open>
  \<^verbatim>\<open>isPhaseComplete\<close> works on the string tokens: it builds the sentinel's name from the
  phase's name, looks both phases up in \<^verbatim>\<open>phaseOrder\<close>, and compares.
\<close>

definition phaseOrder :: "string list" where
  "phaseOrder = [''rfc'', ''plan'', ''rollout'', ''prompts'']"

definition isPhaseComplete :: "DocForgeState \<Rightarrow> DocumentType \<Rightarrow> bool" where
  "isPhaseComplete state ph =
     (let completeStepId = documentTypeText ph @ ''.complete'';
          currentPhase = getPhase (currentStep state);
          currentPhaseIndex = indexOf phaseOrder (phaseText currentPhase);
          targetPhaseIndex = indexOf phaseOrder (documentTypeText ph)
      in currentPhaseIndex > targetPhaseIndex \<or> stepIdText (currentStep state) = completeStepId)"

text \<open>
  Following \<^verbatim>\<open>getNextStep\<close> from a step until it returns null, collecting the steps
  visited. The walk is a total function: every successor is later in \<open>allSteps\<close>, so the
  number of remaining steps decreases.
\<close>

function walk :: "StepId \<Rightarrow> StepId list" where
  "walk s = s # (case getNextStep s of None \<Rightarrow> [] | Some n \<Rightarrow> walk n)"
  by pat_completeness auto
termination
proof (relation "measure (\<lambda>s. nat (int (length allSteps) - indexOf allSteps s - 1))")
  show "wf (measure (\<lambda>s. nat (int (length allSteps) - indexOf allSteps s - 1)))"
    by simp
next
  fix s n
  assume "getNextStep s = Some n"
  then have "indexOf allSteps s < indexOf allSteps n"
    by (cases s) (simp_all add: getNextStep_def allSteps_def)
  moreover have "indexOf allSteps n < 15"
    by (cases n) (simp_all add: allSteps_def)
  moreover have "length allSteps = 15"
    by (simp add: allSteps_def)
  ultimately show "(n, s) \<in> measure (\<lambda>s. nat (int (length allSteps) - indexOf allSteps s - 1))"
    by simp
qed

declare walk.simps [simp del]

text \<open>The successor relation of the step graph.\<close>

definition nextRel :: "(StepId \<times> StepId) set" where
  "nextRel = {(a, b). getNextStep a = Some b}"

text \<open>The positions the specification gives the phases in its fixed order.\<close>

fun specPhaseIndex :: "Phase \<Rightarrow> nat" where
  "specPhaseIndex phase_rfc = 0"
| "specPhaseIndex phase_plan = 1"
| "specPhaseIndex phase_rollout = 2"
| "specPhaseIndex phase_prompts = 3"

fun phaseOfDocument :: "DocumentType \<Rightarrow> Phase" where
  "phaseOfDocument doc_rfc = phase_rfc"
| "phaseOfDocument doc_plan = phase_plan"
| "phaseOfDocument doc_rollout = phase_rollout"

fun sentinelOf :: "DocumentType \<Rightarrow> StepId" where
  "sentinelOf doc_rfc = rfc_complete"
| "sentinelOf doc_plan = plan_complete"
| "sentinelOf doc_rollout = rollout_complete"

section \<open>Document validation (src/utils/validation.ts, second part of src/utils/console.ts)\<close>

text \<open>
  The section patterns are JavaScript regular expressions with the flags \<open>m\<close> and \<open>i\<close>.
  They are built from literal text, the classes \<^verbatim>\<open>\s\<close>, \<^verbatim>\<open>\d\<close> and \<^verbatim>\<open>.\<close> under \<open>*\<close> or
  \<open>+\<close>, an optional group \<^verbatim>\<open>(?:...)?\<close> and the anchor \<^verbatim>\<open>^\<close>. The matcher below decides
  whether a pattern matches at a position; a pattern without back-references matches
  there under JavaScript's backtracking exactly when some choice of repetition counts
  matches, which is what the disjunctions try.
\<close>

datatype CharClass = cc_space | cc_digit | cc_any

datatype Regex =
    Lit string
  | Many CharClass
  | Many1 CharClass
  | Optional "Regex list"
  | LineStart

definition isLineTerminator :: "char \<Rightarrow> bool" where
  "isLineTerminator c = (c = CHR 0x0A \<or> c = CHR 0x0D)"

text \<open>White space and line terminators among the code units up to U+00FF.\<close>

definition isWhiteSpace :: "char \<Rightarrow> bool" where
  "isWhiteSpace c =
     (c = CHR 0x09 \<or> c = CHR 0x0A \<or> c = CHR 0x0B \<or> c = CHR 0x0C \<or> c = CHR 0x0D
      \<or> c = CHR 0x20 \<or> c = CHR 0xA0)"

fun inClass :: "CharClass \<Rightarrow> char \<Rightarrow> bool" where
  "inClass cc_space c = isWhiteSpace c"
| "inClass cc_digit c = (48 \<le> (of_char c :: nat) \<and> (of_char c :: nat) \<le> 57)"
| "inClass cc_any c = (\<not> isLineTerminator c)"

text \<open>
  Flag \<open>i\<close>: two characters match when their canonical forms (upper case) are equal.
  Among the code units up to U+00FF the letters a-z and U+00E0 .. U+00FE (but U+00F7)
  have an upper case in the same range.
\<close>

definition canonicalize :: "char \<Rightarrow> char" where
  "canonicalize c =
     (let n = (of_char c :: nat)
      in if (97 \<le> n \<and> n \<le> 122) \<or> (224 \<le> n \<and> n \<le> 254 \<and> n \<noteq> 247)
         then char_of (n - 32) else c)"

fun weight :: "Regex \<Rightarrow> nat" where
  "weight (Lit l) = Suc (length l)"
| "weight (Many cl) = 1"
| "weight (Many1 cl) = 1"
| "weight (Optional rs) = Suc (sum_list (map weight rs))"
| "weight LineStart = 1"

text \<open>
  \<open>matchHere p prev s\<close>: the pattern \<open>p\<close> matches a prefix of \<open>s\<close>, where \<open>prev\<close> is the
  character before \<open>s\<close> in the text (none at the start of the text). With flag \<open>m\<close> the
  anchor \<^verbatim>\<open>^\<close> holds at the start of the text and after a line terminator.
\<close>

function (sequential) matchHere :: "Regex list \<Rightarrow> char option \<Rightarrow> string \<Rightarrow> bool" where
  "matchHere [] prev s = True"
| "matchHere (LineStart # rs) prev s =
     ((case prev of None \<Rightarrow> True | Some c \<Rightarrow> isLineTerminator c) \<and> matchHere rs prev s)"
| "matchHere (Lit [] # rs) prev s = matchHere rs prev s"
| "matchHere (Lit (l # ls) # rs) prev [] = False"
| "matchHere (Lit (l # ls) # rs) prev (c # cs) =
     (canonicalize l = canonicalize c \<and> matchHere (Lit ls # rs) (Some c) cs)"
| "matchHere (Many cl # rs) prev [] = matchHere rs prev []"
| "matchHere (Many cl # rs) prev (c # cs) =
     (matchHere rs prev (c # cs) \<or> (inClass cl c \<and> matchHere (Many cl # rs) (Some c) cs))"
| "matchHere (Many1 cl # rs) prev [] = False"
| "matchHere (Many1 cl # rs) prev (c # cs) =
     (inClass cl c \<and> matchHere (Many cl # rs) (Some c) cs)"
| "matchHere (Optional inner # rs) prev s =
     (matchHere (inner @ rs) prev s \<or> matchHere rs prev s)"
  by pat_completeness auto
termination
  by (relation "measure (\<lambda>(p, prev, s). sum_list (map weight p) + length s)") auto

text \<open>\<^verbatim>\<open>RegExp.prototype.test\<close> without the flags \<open>g\<close> and \<open>y\<close>: a match at some position.\<close>

fun searchFrom :: "Regex list \<Rightarrow> char option \<Rightarrow> string \<Rightarrow> bool" where
  "searchFrom p prev [] = matchHere p prev []"
| "searchFrom p prev (c # cs) = (matchHere p prev (c # cs) \<or> searchFrom p (Some c) cs)"

definition regexTest :: "Regex list \<Rightarrow> string \<Rightarrow> bool" where
  "regexTest p content = searchFrom p None content"

record SectionRequirement =
  section_name :: string
  required :: bool
  pattern :: "Regex list"

definition RFC_SECTIONS :: "SectionRequirement list" where
  "RFC_SECTIONS =
     [\<lparr> section_name = ''Problem Statement'', required = True,
         pattern = [LineStart, Lit ''##'', Many cc_space, Lit ''Problem''] \<rparr>,
      \<lparr> section_name = ''Goals'', required = True,
         pattern = [LineStart, Lit ''##'', Many cc_space, Lit ''Goals''] \<rparr>,
      \<lparr> section_name = ''Non-Goals'', required = True,
         pattern = [LineStart, Lit ''##'', Many cc_space, Lit ''Non-Goals''] \<rparr>,
      \<lparr> section_name = ''Approach'', required = True,
         pattern = [LineStart, Lit ''##'', Many cc_space,
                    Optional [Lit ''Proposed'', Many1 cc_space], Lit ''Approach''] \<rparr>,
      \<lparr> section_name = ''Interfaces & Contracts'', required = True,
         pattern = [LineStart, Lit ''##'', Many cc_space, Lit ''Interfaces''] \<rparr>,
      \<lparr> section_name = ''Alternatives'', required = True,
         pattern = [LineStart, Lit ''##'', Many cc_space, Lit ''Alternatives''] \<rparr>,
      \<lparr> section_name = ''Open Questions'', required = False,
         pattern = [LineStart, Lit ''##'', Many cc_space, Lit ''Open'', Many cc_space,
                    Lit ''Questions''] \<rparr>,
      \<lparr> section_name = ''Assumptions'', required = False,
         pattern = [LineStart, Lit ''##'', Many cc_space, Lit ''Assumptions''] \<rparr>]"

definition PLAN_SECTIONS :: "SectionRequirement list" where
  "PLAN_SECTIONS =
     [\<lparr> section_name = ''Overview'', required = True,
         pattern = [LineStart, Lit ''##'', Many cc_space, Lit ''Overview''] \<rparr>,
      \<lparr> section_name = ''Stages'', required = True,
         pattern = [LineStart, Lit ''##'', Many cc_space, Lit ''Stage'', Many cc_space,
                    Many1 cc_digit] \<rparr>,
      \<lparr> section_name = ''Acceptance Criteria'', required = True,
         pattern = [Lit ''acceptance'', Many cc_space, Lit ''criteria''] \<rparr>,
      \<lparr> section_name = ''Definition of Done'', required = True,
         pattern = [Lit ''definition'', Many cc_space, Lit ''of'', Many cc_space, Lit ''done''] \<rparr>]"

definition ROLLOUT_SECTIONS :: "SectionRequirement list" where
  "ROLLOUT_SECTIONS =
     [\<lparr> section_name = ''Key Risks'', required = True,
         pattern = [LineStart, Lit ''##'', Many cc_space,
                    Optional [Lit ''Key'', Many cc_space], Lit ''Risks''] \<rparr>,
      \<lparr> section_name = ''Observability'', required = True,
         pattern = [LineStart, Lit ''##'', Many cc_space, Lit ''Observability''] \<rparr>,
      \<lparr> section_name = ''Rollout Steps'', required = True,
         pattern = [LineStart, Lit ''##'', Many cc_space, Lit ''Rollout''] \<rparr>,
      \<lparr> section_name = ''Kill Switch'', required = True,
         pattern = [Lit ''kill'', Many cc_space, Lit ''switch''] \<rparr>,
      \<lparr> section_name = ''Rollback'', required = True,
         pattern = [LineStart, Lit ''##'', Many cc_space, Lit ''Rollback''] \<rparr>,
      \<lparr> section_name = ''Stop Conditions'', required = True,
         pattern = [Lit ''stop'', Many cc_any, Lit ''condition''] \<rparr>]"

record ValidationResult =
  valid :: bool
  missingSections :: "string list"
  warnings :: "string list"

text \<open>
  The loop of \<^verbatim>\<open>validateDocument\<close> over the sections, with the two arrays it pushes to.
\<close>

fun validateLoop ::
  "string \<Rightarrow> SectionRequirement list \<Rightarrow> string list \<Rightarrow> string list
     \<Rightarrow> string list \<times> string list" where
  "validateLoop content [] missing warns = (missing, warns)"
| "validateLoop content (sec # rest) missing warns =
     (if \<not> regexTest (pattern sec) content then
        (if required sec
         then validateLoop content rest (missing @ [section_name sec]) warns
         else validateLoop content rest missing
                (warns @ [''Optional section missing: '' @ section_name sec]))
      else validateLoop content rest missing warns)"

definition validateDocument :: "string \<Rightarrow> SectionRequirement list \<Rightarrow> ValidationResult" where
  "validateDocument content sections =
     (case validateLoop content sections [] [] of
        (missing, warns) \<Rightarrow>
          \<lparr> valid = (length missing = 0), missingSections = missing, warnings = warns \<rparr>)"

definition validateRfc :: "string \<Rightarrow> ValidationResult" where
  "validateRfc content = validateDocument content RFC_SECTIONS"

definition validatePlan :: "string \<Rightarrow> ValidationResult" where
  "validatePlan content = validateDocument content PLAN_SECTIONS"

definition validateRollout :: "string \<Rightarrow> ValidationResult" where
  "validateRollout content = validateDocument content ROLLOUT_SECTIONS"

fun validateDocumentByType :: "DocumentType \<Rightarrow> string \<Rightarrow> ValidationResult" where
  "validateDocumentByType doc_rfc content = validateRfc content"
| "validateDocumentByType doc_plan content = validatePlan content"
| "validateDocumentByType doc_rollout content = validateRollout content"

record StrictCheck =
  passes :: bool
  errors :: "string list"

definition strictModeCheck :: "DocForgeState \<Rightarrow> DocumentType \<Rightarrow> string \<Rightarrow> StrictCheck" where
  "strictModeCheck state dt content =
     (if \<not> strictMode state then \<lparr> passes = True, errors = [] \<rparr>
      else
        (let result = validateDocumentByType dt content
         in if \<not> valid result
            then \<lparr> passes = False,
                   errors = map (\<lambda>s. ''Missing required section: '' @ s) (missingSections result) \<rparr>
            else \<lparr> passes = True, errors = [] \<rparr>))"

text \<open>The ordered list of section requirements that a document type owns.\<close>

fun sectionsOf :: "DocumentType \<Rightarrow> SectionRequirement list" where
  "sectionsOf doc_rfc = RFC_SECTIONS"
| "sectionsOf doc_plan = PLAN_SECTIONS"
| "sectionsOf doc_rollout = ROLLOUT_SECTIONS"

text \<open>A requirement fails on a text when its pattern matches nowhere in it.\<close>

definition failsOn :: "string \<Rightarrow> SectionRequirement \<Rightarrow> bool" where
  "failsOn content sec = (\<not> regexTest (pattern sec) content)"

text \<open>Changing the case of the letters a-z and A-Z of a text.\<close>

definition asciiUpper :: "char \<Rightarrow> char" where
  "asciiUpper c =
     (let n = (of_char c :: nat) in if 97 \<le> n \<and> n \<le> 122 then char_of (n - 32) else c)"

definition asciiLower :: "char \<Rightarrow> char" where
  "asciiLower c =
     (let n = (of_char c :: nat) in if 65 \<le> n \<and> n \<le> 90 then char_of (n + 32) else c)"

section \<open>Content hasher (src/utils/hash.ts, in src/unnamed/part_005)\<close>

text \<open>
  \<^verbatim>\<open>createHash('sha256').update(content, 'utf-8').digest('hex')\<close>: the SHA-256 digest
  (FIPS 180-4) of the UTF-8 encoding of the content, as 64 lower-case hexadecimal digits.
  32-bit words are natural numbers below \<open>2 ^ 32\<close>; additions are taken modulo \<open>2 ^ 32\<close>.
\<close>

type_synonym u32 = nat

definition add32 :: "u32 \<Rightarrow> u32 \<Rightarrow> u32" where
  "add32 a b = (a + b) mod 4294967296"

definition rotr :: "nat \<Rightarrow> u32 \<Rightarrow> u32" where
  "rotr n x = drop_bit n x OR take_bit 32 (push_bit (32 - n) x)"

definition Ch :: "u32 \<Rightarrow> u32 \<Rightarrow> u32 \<Rightarrow> u32" where
  "Ch x y z = (x AND y) XOR ((x XOR 4294967295) AND z)"

definition Maj :: "u32 \<Rightarrow> u32 \<Rightarrow> u32 \<Rightarrow> u32" where
  "Maj x y z = (x AND y) XOR (x AND z) XOR (y AND z)"

definition bsig0 :: "u32 \<Rightarrow> u32" where
  "bsig0 x = rotr 2 x XOR rotr 13 x XOR rotr 22 x"

definition bsig1 :: "u32 \<Rightarrow> u32" where
  "bsig1 x = rotr 6 x XOR rotr 11 x XOR rotr 25 x"

definition ssig0 :: "u32 \<Rightarrow> u32" where
  "ssig0 x = rotr 7 x XOR rotr 18 x XOR drop_bit 3 x"

definition ssig1 :: "u32 \<Rightarrow> u32" where
  "ssig1 x = rotr 17 x XOR rotr 19 x XOR drop_bit 10 x"

definition K256 :: "u32 list" where
  "K256 = [
  1116352408, 1899447441, 3049323471, 3921009573, 961987163, 1508970993, 2453635748, 2870763221,
  3624381080, 310598401, 607225278, 1426881987, 1925078388, 2162078206, 2614888103, 3248222580,
  3835390401, 4022224774, 264347078, 604807628, 770255983, 1249150122, 1555081692, 1996064986,
  2554220882, 2821834349, 2952996808, 3210313671, 3336571891, 3584528711, 113926993, 338241895,
  666307205, 773529912, 1294757372, 1396182291, 1695183700, 1986661051, 2177026350, 2456956037,
  2730485921, 2820302411, 3259730800, 3345764771, 3516065817, 3600352804, 4094571909, 275423344,
  430227734, 506948616, 659060556, 883997877, 958139571, 1322822218, 1537002063, 1747873779,
  1955562222, 2024104815, 2227730452, 2361852424, 2428436474, 2756734187, 3204031479, 3329325298]"

type_synonym hstate = "u32 \<times> u32 \<times> u32 \<times> u32 \<times> u32 \<times> u32 \<times> u32 \<times> u32"

definition H256 :: hstate where
  "H256 = (1779033703, 3144134277, 1013904242, 2773480762,
           1359893119, 2600822924, 528734635, 1541459225)"

text \<open>
  The message schedule is kept as a window of the last sixteen words: \<open>ws ! 0\<close> is the
  word of the current round, and the word sixteen rounds ahead is computed from the
  window.
\<close>

definition next_word :: "u32 list \<Rightarrow> u32" where
  "next_word ws = add32 (add32 (add32 (ssig1 (ws ! 14)) (ws ! 9)) (ssig0 (ws ! 1))) (ws ! 0)"

definition step256 :: "u32 \<Rightarrow> u32 \<Rightarrow> hstate \<Rightarrow> hstate" where
  "step256 t1 t2 = (\<lambda>(a, b, c, d, e, f, g, h). (add32 t1 t2, a, b, c, add32 d t1, e, f, g))"

fun round256 :: "hstate \<Rightarrow> u32 \<Rightarrow> u32 \<Rightarrow> hstate" where
  "round256 (a, b, c, d, e, f, g, h) k w =
     step256 (add32 (add32 (add32 (add32 h (bsig1 e)) (Ch e f g)) k) w)
             (add32 (bsig0 a) (Maj a b c)) (a, b, c, d, e, f, g, h)"

fun rounds :: "u32 list \<Rightarrow> u32 list \<Rightarrow> hstate \<Rightarrow> hstate" where
  "rounds [] ws s = s"
| "rounds (k # ks) ws s = rounds ks (tl ws @ [next_word ws]) (round256 s k (hd ws))"

fun add8 :: "hstate \<Rightarrow> hstate \<Rightarrow> hstate" where
  "add8 (a, b, c, d, e, f, g, h) (a', b', c', d', e', f', g', h') =
     (add32 a a', add32 b b', add32 c c', add32 d d',
      add32 e e', add32 f f', add32 g g', add32 h h')"

definition compress :: "hstate \<Rightarrow> u32 list \<Rightarrow> hstate" where
  "compress hs block = add8 hs (rounds K256 block hs)"

text \<open>
  Padding: the byte \<open>0x80\<close>, zero bytes up to 56 modulo 64, and the length in bits as
  eight bytes, most significant first.
\<close>

definition pad :: "nat list \<Rightarrow> nat list" where
  "pad bs =
     (let n = length bs; bits = 8 * n in
      bs @ [128] @ replicate ((119 - n mod 64) mod 64) 0 @
      map (\<lambda>d. (bits div d) mod 256)
        [72057594037927936, 281474976710656, 1099511627776, 4294967296, 16777216, 65536, 256, 1])"

fun words_of :: "nat list \<Rightarrow> u32 list" where
  "words_of (a # b # c # d # rest) = (((a * 256 + b) * 256 + c) * 256 + d) # words_of rest"
| "words_of _ = []"

function blocks_of :: "u32 list \<Rightarrow> u32 list list" where
  "blocks_of ws = (if ws = [] then [] else take 16 ws # blocks_of (drop 16 ws))"
  by pat_completeness auto
termination
  by (relation "measure length") auto

declare blocks_of.simps [simp del]

definition sha256 :: "nat list \<Rightarrow> hstate" where
  "sha256 bs = foldl compress H256 (blocks_of (words_of (pad bs)))"

definition hexdigit :: "nat \<Rightarrow> char" where
  "hexdigit n = ''0123456789abcdef'' ! (n mod 16)"

definition hex32 :: "u32 \<Rightarrow> string" where
  "hex32 w = map (\<lambda>i. hexdigit (drop_bit (4 * i) w)) [7, 6, 5, 4, 3, 2, 1, 0]"

fun digest_words :: "hstate \<Rightarrow> u32 list" where
  "digest_words (a, b, c, d, e, f, g, h) = [a, b, c, d, e, f, g, h]"

text \<open>UTF-8 of a string whose code units are below U+0100: one or two bytes each.\<close>

definition utf8 :: "string \<Rightarrow> nat list" where
  "utf8 s =
     concat (map (\<lambda>c. let n = (of_char c :: nat)
                      in if n < 128 then [n] else [192 + n div 64, 128 + n mod 64]) s)"

definition calculateHash :: "string \<Rightarrow> string" where
  "calculateHash content = concat (map hex32 (digest_words (sha256 (utf8 content))))"

text \<open>\<^verbatim>\<open>content.replace(/\r\n/g, '\n')\<close> and \<^verbatim>\<open>String.prototype.trim\<close>.\<close>

fun replaceCRLF :: "string \<Rightarrow> string" where
  "replaceCRLF [] = []"
| "replaceCRLF [c] = [c]"
| "replaceCRLF (c # d # rest) =
     (if c = CHR 0x0D \<and> d = CHR 0x0A then CHR 0x0A # replaceCRLF rest
      else c # replaceCRLF (d # rest))"

definition trim :: "string \<Rightarrow> string" where
  "trim s = rev (dropWhile isWhiteSpace (rev (dropWhile isWhiteSpace s)))"

definition calculateContentHash :: "string \<Rightarrow> string" where
  "calculateContentHash content =
     (let normalized = trim (replaceCRLF content) in calculateHash normalized)"

definition contentEquals :: "string \<Rightarrow> string \<Rightarrow> bool" where
  "contentEquals content1 content2 =
     (calculateContentHash content1 = calculateContentHash content2)"

section \<open>State store (src/state/store.ts)\<close>

text \<open>
  The disk maps a path to the content of the file there. A file's content either is not
  JSON text (\<^verbatim>\<open>JSON.parse\<close> throws on it) or is the JSON text of an object.
  \<^verbatim>\<open>loadState\<close> returns \<^verbatim>\<open>JSON.parse(content) as DocForgeState\<close>: a cast, with no check of
  the object's shape. So the object the store reads and writes is modelled with every
  property of \<^verbatim>\<open>DocForgeState\<close> optional: \<open>None\<close> is a property that is missing or
  undefined (\<^verbatim>\<open>JSON.stringify\<close> leaves undefined properties out). Reading a property of
  undefined, or calling a method on it, throws a \<^verbatim>\<open>TypeError\<close>. JSON values that are not
  objects, and properties holding a value of the wrong type, are outside the model.
  \<^verbatim>\<open>JSON.parse\<close> of the text that \<^verbatim>\<open>JSON.stringify\<close> writes for an object is that object
  again, so the disk holds the object itself. \<^verbatim>\<open>mkdir\<close> and \<^verbatim>\<open>writeFile\<close> are taken to
  succeed; a file that cannot be read is a file that is not there.
\<close>

record StateObject =
  obj_version :: "int option"
  obj_project :: "ProjectMetadata option"
  obj_currentStep :: "StepId option"
  obj_checkpointResponses :: "CheckpointResponse list option"
  obj_approvals :: "Approval list option"
  obj_documentHashes :: "DocumentHashes option"
  obj_documentProgress :: "DocumentProgress option"
  obj_strictMode :: "bool option"

text \<open>The object of a well-typed state: every property present.\<close>

definition toObject :: "DocForgeState \<Rightarrow> StateObject" where
  "toObject s =
     \<lparr> obj_version = Some (version s),
       obj_project = Some (project s),
       obj_currentStep = Some (currentStep s),
       obj_checkpointResponses = Some (checkpointResponses s),
       obj_approvals = Some (approvals s),
       obj_documentHashes = Some (documentHashes s),
       obj_documentProgress = Some (documentProgress s),
       obj_strictMode = Some (strictMode s) \<rparr>"

datatype fileContent = Unparsable | Json StateObject

type_synonym disk = "string \<rightharpoonup> fileContent"

text \<open>
  The two failures of the store: the error that \<^verbatim>\<open>loadState\<close> throws
  (\<^verbatim>\<open>No DocForge project found. Run "docforge init" to create one.\<close>) and the run-time
  \<^verbatim>\<open>TypeError\<close>.
\<close>

datatype error = NoProjectFound | TypeError

definition STATE_DIR :: string where
  "STATE_DIR = ''.docforge''"

definition STATE_FILE :: string where
  "STATE_FILE = ''state.json''"

text \<open>\<^verbatim>\<open>path.join\<close> of a normalised directory path and a name.\<close>

definition join :: "string \<Rightarrow> string \<Rightarrow> string" where
  "join dir leaf = dir @ ''/'' @ leaf"

definition getStateDirPath :: "string \<Rightarrow> string" where
  "getStateDirPath cwd = join cwd STATE_DIR"

definition getStateFilePath :: "string \<Rightarrow> string" where
  "getStateFilePath cwd = join (getStateDirPath cwd) STATE_FILE"

definition projectExists :: "disk \<Rightarrow> string \<Rightarrow> bool" where
  "projectExists d cwd = (d (getStateFilePath cwd) \<noteq> None)"

definition saveState :: "StateObject \<Rightarrow> disk \<Rightarrow> string \<Rightarrow> disk" where
  "saveState state d cwd = d(getStateFilePath cwd \<mapsto> Json state)"

definition initializeProject :: "ProjectMetadata \<Rightarrow> disk \<Rightarrow> string \<Rightarrow> DocForgeState \<times> disk" where
  "initializeProject p d cwd =
     (let statePath = getStateFilePath cwd;
          state = createInitialState p
      in (state, d(statePath \<mapsto> Json (toObject state))))"

definition loadState :: "disk \<Rightarrow> string \<Rightarrow> error + StateObject" where
  "loadState d cwd =
     (case d (getStateFilePath cwd) of
        None \<Rightarrow> Inl NoProjectFound
      | Some Unparsable \<Rightarrow> Inl NoProjectFound
      | Some (Json obj) \<Rightarrow> Inr obj)"

text \<open>
  \<^verbatim>\<open>Partial<DocForgeState>\<close>: each property is absent, or present with a value that may
  be undefined. The spread \<^verbatim>\<open>{ ...state, ...updates }\<close> copies the properties of \<open>state\<close>
  and then those that \<open>updates\<close> has.
\<close>

datatype 'a entry = absent | present 'a

record PartialState =
  upd_version :: "int option entry"
  upd_project :: "ProjectMetadata option entry"
  upd_currentStep :: "StepId option entry"
  upd_checkpointResponses :: "CheckpointResponse list option entry"
  upd_approvals :: "Approval list option entry"
  upd_documentHashes :: "DocumentHashes option entry"
  upd_documentProgress :: "DocumentProgress option entry"
  upd_strictMode :: "bool option entry"

fun spreadOver :: "'a \<Rightarrow> 'a entry \<Rightarrow> 'a" where
  "spreadOver old absent = old"
| "spreadOver old (present v) = v"

definition spread :: "StateObject \<Rightarrow> PartialState \<Rightarrow> StateObject" where
  "spread state updates =
     \<lparr> obj_version = spreadOver (obj_version state) (upd_version updates),
       obj_project = spreadOver (obj_project state) (upd_project updates),
       obj_currentStep = spreadOver (obj_currentStep state) (upd_currentStep updates),
       obj_checkpointResponses =
         spreadOver (obj_checkpointResponses state) (upd_checkpointResponses updates),
       obj_approvals = spreadOver (obj_approvals state) (upd_approvals updates),
       obj_documentHashes = spreadOver (obj_documentHashes state) (upd_documentHashes updates),
       obj_documentProgress =
         spreadOver (obj_documentProgress state) (upd_documentProgress updates),
       obj_strictMode = spreadOver (obj_strictMode state) (upd_strictMode updates) \<rparr>"

definition updateState :: "PartialState \<Rightarrow> disk \<Rightarrow> string \<Rightarrow> error + (StateObject \<times> disk)" where
  "updateState updates d cwd =
     (case loadState d cwd of
        Inl e \<Rightarrow> Inl e
      | Inr state \<Rightarrow>
          (let newState = spread state updates
           in Inr (newState, saveState newState d cwd)))"

definition recordCheckpointResponse ::
  "string \<Rightarrow> string option \<Rightarrow> string option \<Rightarrow> string option \<Rightarrow> string \<Rightarrow> disk \<Rightarrow> string
     \<Rightarrow> error + (StateObject \<times> disk)" where
  "recordCheckpointResponse sid dis cla mis now d cwd =
     (case loadState d cwd of
        Inl e \<Rightarrow> Inl e
      | Inr state \<Rightarrow>
          (let response = \<lparr> stepId = sid, disagreements = dis, clarifications = cla,
                            missedConstraints = mis, respondedAt = now \<rparr>
           in case obj_checkpointResponses state of
                None \<Rightarrow> Inl TypeError
              | Some rs \<Rightarrow>
                  (let state1 = state\<lparr>obj_checkpointResponses := Some (rs @ [response])\<rparr>
                   in Inr (state1, saveState state1 d cwd))))"

definition recordApproval ::
  "DocumentType \<Rightarrow> string \<Rightarrow> string \<Rightarrow> disk \<Rightarrow> string \<Rightarrow> error + (StateObject \<times> disk)" where
  "recordApproval dt content now d cwd =
     (case loadState d cwd of
        Inl e \<Rightarrow> Inl e
      | Inr state \<Rightarrow>
          (let hash = calculateHash content
           in case obj_approvals state of
                None \<Rightarrow> Inl TypeError
              | Some as \<Rightarrow>
                  (let kept = filter (\<lambda>a. documentType a \<noteq> dt) as;
                       state1 = state\<lparr>obj_approvals :=
                         Some (kept @ [\<lparr> documentType = dt, contentHash = hash,
                                         approvedAt = now \<rparr>])\<rparr>
                   in case obj_documentHashes state1 of
                        None \<Rightarrow> Inl TypeError
                      | Some hashes \<Rightarrow>
                          (let state2 = state1\<lparr>obj_documentHashes := Some (hashes(dt \<mapsto> hash))\<rparr>
                           in Inr (state2, saveState state2 d cwd)))))"

definition isDocumentApproved :: "DocForgeState \<Rightarrow> DocumentType \<Rightarrow> bool" where
  "isDocumentApproved state dt = list_ex (\<lambda>a. documentType a = dt) (approvals state)"

definition hasDocumentChanged :: "DocForgeState \<Rightarrow> DocumentType \<Rightarrow> string \<Rightarrow> bool" where
  "hasDocumentChanged state dt currentContent =
     (case find (\<lambda>a. documentType a = dt) (approvals state) of
        None \<Rightarrow> True
      | Some approval \<Rightarrow>
          (let currentHash = calculateHash currentContent
           in contentHash approval \<noteq> currentHash))"

definition areAllDocumentsApproved :: "DocForgeState \<Rightarrow> bool" where
  "areAllDocumentsApproved state =
     list_all (\<lambda>doc. isDocumentApproved state doc) [doc_rfc, doc_plan, doc_rollout]"

section \<open>The init command (src/commands/init.ts, in src/unnamed/part_003)\<close>

text \<open>
  The action of \<^verbatim>\<open>initCommand\<close>, from its guard on. The project metadata that it gathers
  from the options, the prompts and the clock is the argument \<open>p\<close>; \<open>strict\<close> is the
  option \<^verbatim>\<open>--strict\<close>. \<^verbatim>\<open>process.exit(1)\<close> ends the action with status 1. The directories
  for documents and prompts that it creates hold no state and are left out.
\<close>

datatype outcome = Exit nat | Completed

definition initCommand :: "bool \<Rightarrow> ProjectMetadata \<Rightarrow> disk \<Rightarrow> string \<Rightarrow> outcome \<times> disk" where
  "initCommand strict p d cwd =
     (if projectExists d cwd then (Exit 1, d)
      else
        (case initializeProject p d cwd of
           (state, d1) \<Rightarrow>
             if strict
             then (Completed, saveState (toObject (state\<lparr>strictMode := True\<rparr>)) d1 cwd)
             else (Completed, d1)))"

text \<open>States and disks used in the examples below.\<close>

definition exampleState :: DocForgeState where
  "exampleState = (createInitialState exampleProject)\<lparr>currentStep := rfc_goals\<rparr>"

definition exampleDisk :: disk where
  "exampleDisk = Map.empty(getStateFilePath ''/work'' \<mapsto> Json (toObject exampleState))"

definition progressedState :: DocForgeState where
  "progressedState =
     exampleState\<lparr>documentProgress :=
       (documentProgress exampleState)\<lparr>rfc :=
         (rfc (documentProgress exampleState))\<lparr>problem := Some ''Users lose work''\<rparr>\<rparr>\<rparr>"

definition progressedDisk :: disk where
  "progressedDisk = Map.empty(getStateFilePath ''/work'' \<mapsto> Json (toObject progressedState))"

definition noUpdates :: PartialState where
  "noUpdates =
     \<lparr> upd_version = absent, upd_project = absent, upd_currentStep = absent,
       upd_checkpointResponses = absent, upd_approvals = absent, upd_documentHashes = absent,
       upd_documentProgress = absent, upd_strictMode = absent \<rparr>"

text \<open>The object of the JSON text \<^verbatim>\<open>{ "version": 1 }\<close>, and a disk that holds it.\<close>

definition partialObject :: StateObject where
  "partialObject =
     \<lparr> obj_version = Some 1, obj_project = None, obj_currentStep = None,
       obj_checkpointResponses = None, obj_approvals = None, obj_documentHashes = None,
       obj_documentProgress = None, obj_strictMode = None \<rparr>"

definition partialDisk :: disk where
  "partialDisk = Map.empty(getStateFilePath ''/work'' \<mapsto> Json partialObject)"

definition corruptDisk :: disk where
  "corruptDisk = Map.empty(getStateFilePath ''/work'' \<mapsto> Unparsable)"

text \<open>The text \<^verbatim>\<open>"x\r\n"\<close>, and the example state once that text is approved as the RFC.\<close>

definition crlfText :: string where
  "crlfText = [CHR ''x'', CHR 0x0D, CHR 0x0A]"

definition approvedState :: DocForgeState where
  "approvedState =
     exampleState\<lparr>approvals :=
                    [\<lparr> documentType = doc_rfc, contentHash = calculateHash crlfText,
                        approvedAt = ''t1'' \<rparr>],
                  documentHashes := Map.empty(doc_rfc \<mapsto> calculateHash crlfText)\<rparr>"

section \<open>Properties of the step graph\<close>

lemma getNextStep_index:
  "getNextStep a = Some b \<Longrightarrow> indexOf allSteps a < indexOf allSteps b"
  by (cases a) (simp_all add: getNextStep_def allSteps_def)

lemma trancl_index:
  "(a, b) \<in> nextRel\<^sup>+ \<Longrightarrow> indexOf allSteps a < indexOf allSteps b"
proof (induction rule: trancl_induct)
  case (base y)
  then show ?case by (simp add: nextRel_def getNextStep_index)
next
  case (step y z)
  then have "indexOf allSteps y < indexOf allSteps z"
    by (simp add: nextRel_def getNextStep_index)
  with step.IH show ?case by simp
qed

lemma walk_from_start:
  "walk rfc_problem = allSteps"
  by (simp add: walk.simps getNextStep_def allSteps_def)

text \<open>
  C9. The walk from the initial step \<open>rfc.problem\<close> along \<open>getNextStep\<close> is the finite list
  of all fifteen steps, each once, ending at \<open>complete\<close>; \<open>complete\<close> is the only step whose
  next is null; and no step reaches itself along the successor relation (no cycle).
\<close>

theorem C9_walk_finite_acyclic:
  "walk rfc_problem =
     [rfc_problem, rfc_goals, rfc_approach, rfc_interfaces, rfc_alternatives, rfc_complete,
      plan_stages, plan_criteria, plan_complete,
      rollout_risks, rollout_observability, rollout_procedures, rollout_complete,
      prompts_generate, complete]
   \<and> distinct (walk rfc_problem)
   \<and> last (walk rfc_problem) = complete
   \<and> (getNextStep s = None) = (s = complete)
   \<and> (s, s) \<notin> nextRel\<^sup>+"
proof -
  have w: "walk rfc_problem = allSteps" by (rule walk_from_start)
  have t: "(getNextStep s = None) = (s = complete)"
    by (cases s) (simp_all add: getNextStep_def)
  have c: "(s, s) \<notin> nextRel\<^sup>+"
    using trancl_index [of s s] by auto
  show ?thesis
    using t c by (simp add: w allSteps_def)
qed

text \<open>
  C5. \<open>isPhaseComplete state ph\<close> holds exactly when the phase of the current step comes
  strictly after \<open>ph\<close> in the order rfc, plan, rollout, prompts, or the current step is the
  sentinel \<open>ph.complete\<close>; so it is false at every other step of the phase \<open>ph\<close> itself,
  including the last substantive one (\<open>rfc.alternatives\<close>, \<open>plan.criteria\<close>,
  \<open>rollout.procedures\<close>).
\<close>

theorem C5_isPhaseComplete_policy:
  "isPhaseComplete state ph =
     (specPhaseIndex (getPhase (currentStep state)) > specPhaseIndex (phaseOfDocument ph)
      \<or> currentStep state = sentinelOf ph)
   \<and> (getPhase (currentStep state) = phaseOfDocument ph \<and> currentStep state \<noteq> sentinelOf ph
        \<longrightarrow> \<not> isPhaseComplete state ph)
   \<and> (currentStep state = rfc_alternatives \<longrightarrow> \<not> isPhaseComplete state doc_rfc)
   \<and> (currentStep state = plan_criteria \<longrightarrow> \<not> isPhaseComplete state doc_plan)
   \<and> (currentStep state = rollout_procedures \<longrightarrow> \<not> isPhaseComplete state doc_rollout)"
proof -
  have main: "isPhaseComplete st d =
     (specPhaseIndex (getPhase (currentStep st)) > specPhaseIndex (phaseOfDocument d)
      \<or> currentStep st = sentinelOf d)" for st d
    by (cases "currentStep st"; cases d)
       (simp_all add: isPhaseComplete_def getPhase_def phaseOrder_def)
  show ?thesis
    by (auto simp: main getPhase_def)
qed

theorem C5_isPhaseComplete_policy_witness:
  "isPhaseComplete ((createInitialState exampleProject)\<lparr>currentStep := plan_stages\<rparr>) doc_rfc
   \<and> \<not> isPhaseComplete ((createInitialState exampleProject)\<lparr>currentStep := plan_criteria\<rparr>) doc_plan
   \<and> isPhaseComplete ((createInitialState exampleProject)\<lparr>currentStep := plan_complete\<rparr>) doc_plan"
  using C5_isPhaseComplete_policy
          [of "(createInitialState exampleProject)\<lparr>currentStep := plan_stages\<rparr>" doc_rfc]
        C5_isPhaseComplete_policy
          [of "(createInitialState exampleProject)\<lparr>currentStep := plan_criteria\<rparr>" doc_plan]
        C5_isPhaseComplete_policy
          [of "(createInitialState exampleProject)\<lparr>currentStep := plan_complete\<rparr>" doc_plan]
  by (simp add: getPhase_def)

section \<open>Properties of the document validator\<close>

lemma validateLoop_eq:
  "validateLoop content secs m w =
     (m @ map section_name (filter (\<lambda>s. required s \<and> failsOn content s) secs),
      w @ map (\<lambda>s. ''Optional section missing: '' @ section_name s)
            (filter (\<lambda>s. \<not> required s \<and> failsOn content s) secs))"
  by (induction secs arbitrary: m w) (simp_all add: failsOn_def)

lemma validateDocument_eq:
  "validateDocument content secs =
     \<lparr> valid = (filter (\<lambda>s. required s \<and> failsOn content s) secs = []),
       missingSections = map section_name (filter (\<lambda>s. required s \<and> failsOn content s) secs),
       warnings = map (\<lambda>s. ''Optional section missing: '' @ section_name s)
            (filter (\<lambda>s. \<not> required s \<and> failsOn content s) secs) \<rparr>"
  by (simp add: validateDocument_def validateLoop_eq)

lemma validateDocumentByType_eq:
  "validateDocumentByType t content = validateDocument content (sectionsOf t)"
  by (cases t) (simp_all add: validateRfc_def validatePlan_def validateRollout_def)

lemma canonicalize_asciiUpper: "canonicalize (asciiUpper c) = canonicalize c"
  by (auto simp: canonicalize_def asciiUpper_def Let_def)

lemma canonicalize_asciiLower: "canonicalize (asciiLower c) = canonicalize c"
  by (auto simp: canonicalize_def asciiLower_def Let_def)

lemma char_eq_nat: "(c = d) = ((of_char c :: nat) = of_char d)"
  by simp

lemma of_char_asciiUpper:
  "(of_char (asciiUpper c) :: nat) =
     (if 97 \<le> (of_char c :: nat) \<and> (of_char c :: nat) \<le> 122 then of_char c - 32 else of_char c)"
  by (auto simp: asciiUpper_def Let_def)

lemma of_char_asciiLower:
  "(of_char (asciiLower c) :: nat) =
     (if 65 \<le> (of_char c :: nat) \<and> (of_char c :: nat) \<le> 90 then of_char c + 32 else of_char c)"
  by (auto simp: asciiLower_def Let_def)

lemma isLineTerminator_asciiUpper: "isLineTerminator (asciiUpper c) = isLineTerminator c"
  by (auto simp: isLineTerminator_def char_eq_nat of_char_asciiUpper)

lemma isLineTerminator_asciiLower: "isLineTerminator (asciiLower c) = isLineTerminator c"
  by (auto simp: isLineTerminator_def char_eq_nat of_char_asciiLower)

lemma inClass_asciiUpper: "inClass cl (asciiUpper c) = inClass cl c"
  by (cases cl) (auto simp: isWhiteSpace_def isLineTerminator_def char_eq_nat of_char_asciiUpper)

lemma inClass_asciiLower: "inClass cl (asciiLower c) = inClass cl c"
  by (cases cl) (auto simp: isWhiteSpace_def isLineTerminator_def char_eq_nat of_char_asciiLower)

lemma matchHere_map:
  assumes can: "\<And>c. canonicalize (f c) = canonicalize c"
      and cls: "\<And>cl c. inClass cl (f c) = inClass cl c"
      and lt: "\<And>c. isLineTerminator (f c) = isLineTerminator c"
  shows "matchHere p (map_option f prev) (map f s) = matchHere p prev s"
proof (induction p prev s rule: matchHere.induct)
  case (2 rs prev s)
  then show ?case by (cases prev) (simp_all add: lt)
next
  case (5 l ls rs prev c cs)
  then show ?case using can [of c] by simp
next
  case (7 cl rs prev c cs)
  then show ?case using cls [of cl c] by simp
next
  case (9 cl rs prev c cs)
  then show ?case using cls [of cl c] by simp
qed simp_all

lemma searchFrom_map:
  assumes can: "\<And>c. canonicalize (f c) = canonicalize c"
      and cls: "\<And>cl c. inClass cl (f c) = inClass cl c"
      and lt: "\<And>c. isLineTerminator (f c) = isLineTerminator c"
  shows "searchFrom p (map_option f prev) (map f s) = searchFrom p prev s"
proof (induction s arbitrary: prev)
  case Nil
  show ?case using matchHere_map [OF can cls lt, of p prev "[]"] by simp
next
  case (Cons c cs)
  have "matchHere p (map_option f prev) (map f (c # cs)) = matchHere p prev (c # cs)"
    by (rule matchHere_map [OF can cls lt])
  moreover have "searchFrom p (map_option f (Some c)) (map f cs) = searchFrom p (Some c) cs"
    by (rule Cons.IH)
  ultimately show ?case by simp
qed

lemma regexTest_asciiUpper: "regexTest p (map asciiUpper s) = regexTest p s"
  using searchFrom_map [of asciiUpper p None s]
  by (simp add: regexTest_def canonicalize_asciiUpper inClass_asciiUpper isLineTerminator_asciiUpper)

lemma regexTest_asciiLower: "regexTest p (map asciiLower s) = regexTest p s"
  using searchFrom_map [of asciiLower p None s]
  by (simp add: regexTest_def canonicalize_asciiLower inClass_asciiLower isLineTerminator_asciiLower)

text \<open>A match at the start of a line of the text is found by the search.\<close>

lemma searchFrom_append:
  "matchHere p (if pre = [] then prev else Some (last pre)) s \<Longrightarrow> searchFrom p prev (pre @ s)"
proof (induction pre arbitrary: prev)
  case Nil
  then show ?case by (cases s) simp_all
next
  case (Cons c cs)
  then show ?case by (cases cs) auto
qed

lemma approach_matches_here:
  "prev = None \<or> prev = Some (CHR 0x0A) \<Longrightarrow>
   matchHere [LineStart, Lit ''##'', Many cc_space,
              Optional [Lit ''Proposed'', Many1 cc_space], Lit ''Approach'']
     prev (''## Proposed Approach'' @ rest)"
  by (auto simp: isLineTerminator_def isWhiteSpace_def canonicalize_def)

lemma char_of_eq_left: "(char_of (n::nat) = c) = (n mod 256 = of_char c)"
  by (simp add: char_of_eq_iff take_bit_eq_mod)

lemma char_of_eq_right: "(c = char_of (n::nat)) = (n mod 256 = of_char c)"
  using char_of_eq_left [of n c] by auto

lemmas eval_regex =
  regexTest_def failsOn_def canonicalize_def isLineTerminator_def isWhiteSpace_def
  char_of_eq_left char_of_eq_right

lemma missing_iff:
  "(filter (\<lambda>s. required s \<and> failsOn content s) secs = []) =
     (\<not> (\<exists>sec \<in> set secs. required sec \<and> failsOn content sec))"
  by (auto simp: filter_empty_conv)

lemma approach_only:
  "sec \<in> set RFC_SECTIONS \<Longrightarrow> section_name sec = ''Approach'' \<Longrightarrow>
   pattern sec = [LineStart, Lit ''##'', Many cc_space,
                  Optional [Lit ''Proposed'', Many1 cc_space], Lit ''Approach'']"
  by (auto simp: RFC_SECTIONS_def)

lemma not_missing:
  "(\<And>sec. sec \<in> set secs \<Longrightarrow> section_name sec = n \<Longrightarrow> \<not> failsOn content sec) \<Longrightarrow>
   n \<notin> set (missingSections (validateDocument content secs))"
  by (auto simp: validateDocument_eq)

lemma approach_found:
  "regexTest [LineStart, Lit ''##'', Many cc_space,
              Optional [Lit ''Proposed'', Many1 cc_space], Lit ''Approach'']
     ((if atStart then [] else before @ [CHR 0x0A]) @ ''## Proposed Approach'' @ rest)"
  unfolding regexTest_def
  by (rule searchFrom_append, rule approach_matches_here) simp

text \<open>
  C7. For every document type and text: \<open>valid\<close> is false exactly when some required
  section's pattern matches nowhere in the text; \<open>missingSections\<close> lists the names of the
  required sections that fail, in order; the optional sections that fail yield one warning
  each and nothing else; the result does not change when the letters of the text change
  case; and a text with the line \<open>## Proposed Approach\<close> (first line, or after a line
  break) does not miss the section \<open>Approach\<close>.
\<close>

theorem C7_validate_sections:
  "(\<not> valid (validateDocumentByType t content)) =
     (\<exists>sec \<in> set (sectionsOf t). required sec \<and> failsOn content sec)
   \<and> missingSections (validateDocumentByType t content) =
       map section_name (filter (\<lambda>sec. required sec \<and> failsOn content sec) (sectionsOf t))
   \<and> warnings (validateDocumentByType t content) =
       map (\<lambda>sec. ''Optional section missing: '' @ section_name sec)
         (filter (\<lambda>sec. \<not> required sec \<and> failsOn content sec) (sectionsOf t))
   \<and> validateDocumentByType t (map asciiUpper content) = validateDocumentByType t content
   \<and> validateDocumentByType t (map asciiLower content) = validateDocumentByType t content
   \<and> ''Approach'' \<notin> set (missingSections (validateDocumentByType doc_rfc
         ((if atStart then [] else before @ [CHR 0x0A]) @ ''## Proposed Approach'' @ rest)))"
proof -
  have up: "failsOn (map asciiUpper content) = failsOn content"
    by (simp add: fun_eq_iff failsOn_def regexTest_asciiUpper)
  have lo: "failsOn (map asciiLower content) = failsOn content"
    by (simp add: fun_eq_iff failsOn_def regexTest_asciiLower)
  have ap: "''Approach'' \<notin> set (missingSections (validateDocumentByType doc_rfc
         ((if atStart then [] else before @ [CHR 0x0A]) @ ''## Proposed Approach'' @ rest)))"
    unfolding validateDocumentByType_eq sectionsOf.simps
  proof (rule not_missing)
    fix sec
    assume "sec \<in> set RFC_SECTIONS" and "section_name sec = ''Approach''"
    then have "pattern sec = [LineStart, Lit ''##'', Many cc_space,
                  Optional [Lit ''Proposed'', Many1 cc_space], Lit ''Approach'']"
      by (rule approach_only)
    then show "\<not> failsOn ((if atStart then [] else before @ [CHR 0x0A])
                 @ ''## Proposed Approach'' @ rest) sec"
      unfolding failsOn_def using approach_found [of atStart before rest] by simp
  qed
  show ?thesis
    using ap
    by (simp add: validateDocumentByType_eq validateDocument_eq missing_iff up lo)
qed

theorem C7_validate_sections_witness:
  "\<not> valid (validateDocumentByType doc_plan ''## overview'')
   \<and> missingSections (validateDocumentByType doc_plan ''## overview'') =
       [''Stages'', ''Acceptance Criteria'', ''Definition of Done'']
   \<and> warnings (validateDocumentByType doc_plan ''## overview'') = []"
  using C7_validate_sections [of doc_plan "''## overview''" True "[]" "[]"]
  by (simp add: PLAN_SECTIONS_def eval_regex)

text \<open>
  C4. When \<open>strictMode\<close> is off, \<open>strictModeCheck\<close> passes with no errors whatever the
  text. When it is on, it passes exactly when \<open>validate\<close> reports \<open>valid\<close>, and when it
  fails its errors are one message for each required section that is missing, in order.
\<close>

theorem C4_strictModeCheck:
  "(\<not> strictMode state \<longrightarrow>
      strictModeCheck state t content = \<lparr> passes = True, errors = [] \<rparr>)
   \<and> (strictMode state \<longrightarrow>
        passes (strictModeCheck state t content) = valid (validateDocumentByType t content)
        \<and> (\<not> passes (strictModeCheck state t content) \<longrightarrow>
             errors (strictModeCheck state t content) =
               map (\<lambda>sec. ''Missing required section: '' @ section_name sec)
                 (filter (\<lambda>sec. required sec \<and> failsOn content sec) (sectionsOf t))))"
  by (simp add: strictModeCheck_def Let_def validateDocumentByType_eq validateDocument_eq
        comp_def)

theorem C4_strictModeCheck_witness:
  "strictModeCheck (createInitialState exampleProject) doc_plan ''## overview'' =
     \<lparr> passes = True, errors = [] \<rparr>
   \<and> strictModeCheck ((createInitialState exampleProject)\<lparr>strictMode := True\<rparr>) doc_plan
       ''## overview'' =
     \<lparr> passes = False,
       errors = [''Missing required section: Stages'',
                 ''Missing required section: Acceptance Criteria'',
                 ''Missing required section: Definition of Done''] \<rparr>"
proof -
  have off: "\<not> strictMode (createInitialState exampleProject)"
    by (simp add: createInitialState_def)
  have on: "strictMode ((createInitialState exampleProject)\<lparr>strictMode := True\<rparr>)"
    by simp
  have inv: "\<not> valid (validateDocumentByType doc_plan ''## overview'')"
    by (simp add: validateDocumentByType_eq validateDocument_eq PLAN_SECTIONS_def eval_regex)
  have a: "strictModeCheck (createInitialState exampleProject) doc_plan ''## overview'' =
     \<lparr> passes = True, errors = [] \<rparr>"
    using C4_strictModeCheck [of "createInitialState exampleProject" doc_plan "''## overview''"] off
    by simp
  have b: "passes (strictModeCheck ((createInitialState exampleProject)\<lparr>strictMode := True\<rparr>)
                     doc_plan ''## overview'') = False"
    using C4_strictModeCheck
            [of "(createInitialState exampleProject)\<lparr>strictMode := True\<rparr>" doc_plan "''## overview''"]
          on inv
    by simp
  have c: "errors (strictModeCheck ((createInitialState exampleProject)\<lparr>strictMode := True\<rparr>)
                     doc_plan ''## overview'') =
           [''Missing required section: Stages'',
            ''Missing required section: Acceptance Criteria'',
            ''Missing required section: Definition of Done'']"
    using C4_strictModeCheck
            [of "(createInitialState exampleProject)\<lparr>strictMode := True\<rparr>" doc_plan "''## overview''"]
          on b
    by (simp add: PLAN_SECTIONS_def eval_regex)
  show ?thesis
    using a b c
    by (cases "strictModeCheck ((createInitialState exampleProject)\<lparr>strictMode := True\<rparr>)
                 doc_plan ''## overview''") simp
qed


section \<open>Properties of the content hasher\<close>

lemma replicate_numeral: "replicate (numeral k) x = x # replicate (pred_numeral k) x"
  by (simp add: numeral_eq_Suc)

lemma blocks_of_Nil: "blocks_of [] = []"
  by (simp add: blocks_of.simps)

lemma blocks_of_Cons: "blocks_of (w # ws) = take 16 (w # ws) # blocks_of (drop 16 (w # ws))"
  by (subst blocks_of.simps) simp

lemmas eval_blocks = pad_def utf8_def replicate_numeral blocks_of_Nil blocks_of_Cons

lemmas eval_compress =
  compress_def K256_def H256_def step256_def next_word_def bsig0_def bsig1_def Ch_def Maj_def
  ssig0_def ssig1_def rotr_def add32_def

lemmas eval_hex = hex32_def hexdigit_def

text \<open>The test vector of the standard: the digest of \<open>abc\<close>.\<close>

lemma blocks_abc:
  "blocks_of (words_of (pad (utf8 ''abc''))) =
     [[1633837952, 0, 0, 0, 0, 0, 0, 0, 0, 0, 0, 0, 0, 0, 0, 24]]"
  by (simp add: eval_blocks)

lemma compress_abc:
  "compress H256 [1633837952, 0, 0, 0, 0, 0, 0, 0, 0, 0, 0, 0, 0, 0, 0, 24] =
     (3128432319, 2399260650, 1094795486, 1571693091,
      2953011619, 2518121116, 3021012833, 4060091821)"
  by (simp add: eval_compress)

lemma calculateHash_abc:
  "calculateHash ''abc'' = ''ba7816bf8f01cfea414140de5dae2223b00361a396177a9cb410ff61f20015ad''"
  by (simp add: calculateHash_def sha256_def blocks_abc compress_abc eval_hex)

lemma blocks_x:
  "blocks_of (words_of (pad (utf8 ''x''))) =
     [[2021654528, 0, 0, 0, 0, 0, 0, 0, 0, 0, 0, 0, 0, 0, 0, 8]]"
  by (simp add: eval_blocks)

lemma compress_x:
  "compress H256 [2021654528, 0, 0, 0, 0, 0, 0, 0, 0, 0, 0, 0, 0, 0, 0, 8] =
     (762385986, 3072766020, 23231657, 4222366453,
      3360886705, 2419901659, 36013847, 2451196033)"
  by (simp add: eval_compress)

lemma calculateHash_x:
  "calculateHash ''x'' = ''2d711642b726b04401627ca9fbac32f5c8530fb1903cc4db02258717921a4881''"
  by (simp add: calculateHash_def sha256_def blocks_x compress_x eval_hex)

lemma blocks_crlfText:
  "blocks_of (words_of (pad (utf8 crlfText))) =
     [[2014120576, 0, 0, 0, 0, 0, 0, 0, 0, 0, 0, 0, 0, 0, 0, 24]]"
  by (simp add: crlfText_def eval_blocks)

lemma compress_crlfText:
  "compress H256 [2014120576, 0, 0, 0, 0, 0, 0, 0, 0, 0, 0, 0, 0, 0, 0, 24] =
     (3009284602, 753770172, 2912753203, 1874419988,
      1877167099, 3955581543, 2645057418, 827104714)"
  by (simp add: eval_compress)

lemma calculateHash_crlfText:
  "calculateHash crlfText =
     ''b35e09fa2ced9ebcad9d16336fb961146fe34bfbebc562679da85f8a314c9dca''"
  by (simp add: calculateHash_def sha256_def blocks_crlfText compress_crlfText eval_hex)

lemma normalize_crlfText: "trim (replaceCRLF crlfText) = ''x''"
  by (simp add: crlfText_def trim_def isWhiteSpace_def)

lemma find_after_filter:
  "P x \<Longrightarrow> find P (filter (\<lambda>a. \<not> P a) xs @ [x]) = Some x"
  by (induction xs) simp_all

section \<open>Properties of the state store\<close>


lemma loadState_stored:
  "d (getStateFilePath cwd) = Some (Json obj) \<Longrightarrow> loadState d cwd = Inr obj"
  by (simp add: loadState_def)

lemma recordApproval_stored:
  assumes "d (getStateFilePath cwd) = Some (Json (toObject s))"
  shows "recordApproval dt content now d cwd =
     Inr (toObject (s\<lparr>approvals := filter (\<lambda>a. documentType a \<noteq> dt) (approvals s)
                         @ [\<lparr> documentType = dt, contentHash = calculateHash content,
                              approvedAt = now \<rparr>],
                       documentHashes := (documentHashes s)(dt \<mapsto> calculateHash content)\<rparr>),
          d(getStateFilePath cwd \<mapsto>
            Json (toObject (s\<lparr>approvals := filter (\<lambda>a. documentType a \<noteq> dt) (approvals s)
                         @ [\<lparr> documentType = dt, contentHash = calculateHash content,
                              approvedAt = now \<rparr>],
                       documentHashes := (documentHashes s)(dt \<mapsto> calculateHash content)\<rparr>))))"
  using assms
  by (simp add: recordApproval_def loadState_def saveState_def toObject_def Let_def)

lemma recordCheckpointResponse_stored:
  assumes "d (getStateFilePath cwd) = Some (Json (toObject s))"
  shows "recordCheckpointResponse sid dis cla mis now d cwd =
     Inr (toObject (s\<lparr>checkpointResponses := checkpointResponses s
             @ [\<lparr> stepId = sid, disagreements = dis, clarifications = cla,
                  missedConstraints = mis, respondedAt = now \<rparr>]\<rparr>),
          d(getStateFilePath cwd \<mapsto>
            Json (toObject (s\<lparr>checkpointResponses := checkpointResponses s
             @ [\<lparr> stepId = sid, disagreements = dis, clarifications = cla,
                  missedConstraints = mis, respondedAt = now \<rparr>]\<rparr>))))"
  using assms
  by (simp add: recordCheckpointResponse_def loadState_def saveState_def toObject_def Let_def)

text \<open>
  C3. On a stored state, \<open>recordApproval dt A\<close> followed by \<open>recordApproval dt B\<close> both
  succeed, and the state returned and stored has exactly one approval for \<open>dt\<close>, with the
  hash of \<open>B\<close>; \<open>documentHashes dt\<close> is that hash; the approvals of the other document
  types are those of the state before.
\<close>

theorem C3_recordApproval_replaces:
  assumes "d (getStateFilePath cwd) = Some (Json (toObject s))"
  shows "\<exists>s1 d1 s2 d2.
       recordApproval dt A now1 d cwd = Inr (toObject s1, d1)
     \<and> recordApproval dt B now2 d1 cwd = Inr (toObject s2, d2)
     \<and> d2 (getStateFilePath cwd) = Some (Json (toObject s2))
     \<and> filter (\<lambda>a. documentType a = dt) (approvals s2) =
         [\<lparr> documentType = dt, contentHash = calculateHash B, approvedAt = now2 \<rparr>]
     \<and> documentHashes s2 dt = Some (calculateHash B)
     \<and> filter (\<lambda>a. documentType a \<noteq> dt) (approvals s2) =
         filter (\<lambda>a. documentType a \<noteq> dt) (approvals s)"
proof -
  let ?s1 = "s\<lparr>approvals := filter (\<lambda>a. documentType a \<noteq> dt) (approvals s)
                         @ [\<lparr> documentType = dt, contentHash = calculateHash A,
                              approvedAt = now1 \<rparr>],
                documentHashes := (documentHashes s)(dt \<mapsto> calculateHash A)\<rparr>"
  let ?d1 = "d(getStateFilePath cwd \<mapsto> Json (toObject ?s1))"
  let ?s2 = "?s1\<lparr>approvals := filter (\<lambda>a. documentType a \<noteq> dt) (approvals ?s1)
                         @ [\<lparr> documentType = dt, contentHash = calculateHash B,
                              approvedAt = now2 \<rparr>],
                documentHashes := (documentHashes ?s1)(dt \<mapsto> calculateHash B)\<rparr>"
  let ?d2 = "?d1(getStateFilePath cwd \<mapsto> Json (toObject ?s2))"
  have r1: "recordApproval dt A now1 d cwd = Inr (toObject ?s1, ?d1)"
    using assms by (rule recordApproval_stored)
  have st1: "?d1 (getStateFilePath cwd) = Some (Json (toObject ?s1))"
    by simp
  have r2: "recordApproval dt B now2 ?d1 cwd = Inr (toObject ?s2, ?d2)"
    using st1 by (rule recordApproval_stored)
  have st2: "?d2 (getStateFilePath cwd) = Some (Json (toObject ?s2))"
    by simp
  have one: "filter (\<lambda>a. documentType a = dt) (approvals ?s2) =
         [\<lparr> documentType = dt, contentHash = calculateHash B, approvedAt = now2 \<rparr>]"
    by (simp add: filter_empty_conv)
  have hash: "documentHashes ?s2 dt = Some (calculateHash B)"
    by simp
  have others: "filter (\<lambda>a. documentType a \<noteq> dt) (approvals ?s2) =
         filter (\<lambda>a. documentType a \<noteq> dt) (approvals s)"
    by simp
  from r1 r2 st2 one hash others show ?thesis
    by blast
qed

lemma exampleDisk_stored:
  "exampleDisk (getStateFilePath ''/work'') = Some (Json (toObject exampleState))"
  by (simp add: exampleDisk_def)

theorem C3_recordApproval_replaces_witness:
  "(case recordApproval doc_rfc ''A'' ''t1'' exampleDisk ''/work'' of
      Inl e \<Rightarrow> False
    | Inr (o1, d1) \<Rightarrow>
        (case recordApproval doc_rfc ''B'' ''t2'' d1 ''/work'' of
           Inl e \<Rightarrow> False
         | Inr (o2, d2) \<Rightarrow>
             obj_approvals o2 =
               Some [\<lparr> documentType = doc_rfc, contentHash = calculateHash ''B'',
                       approvedAt = ''t2'' \<rparr>]
           \<and> map_option (\<lambda>h. h doc_rfc) (obj_documentHashes o2) = Some (Some (calculateHash ''B''))
           \<and> d2 (getStateFilePath ''/work'') = Some (Json o2)))"
proof -
  obtain s1 d1 s2 d2 where
      r1: "recordApproval doc_rfc ''A'' ''t1'' exampleDisk ''/work'' = Inr (toObject s1, d1)"
  and r2: "recordApproval doc_rfc ''B'' ''t2'' d1 ''/work'' = Inr (toObject s2, d2)"
  and st: "d2 (getStateFilePath ''/work'') = Some (Json (toObject s2))"
  and one: "filter (\<lambda>a. documentType a = doc_rfc) (approvals s2) =
         [\<lparr> documentType = doc_rfc, contentHash = calculateHash ''B'', approvedAt = ''t2'' \<rparr>]"
  and hash: "documentHashes s2 doc_rfc = Some (calculateHash ''B'')"
  and others: "filter (\<lambda>a. documentType a \<noteq> doc_rfc) (approvals s2) =
         filter (\<lambda>a. documentType a \<noteq> doc_rfc) (approvals exampleState)"
    using C3_recordApproval_replaces
            [where d = exampleDisk and cwd = "''/work''" and s = exampleState and dt = doc_rfc
               and A = "''A''" and ?now1.0 = "''t1''" and B = "''B''" and ?now2.0 = "''t2''",
             OF exampleDisk_stored]
    by blast
  have "filter (\<lambda>a. documentType a \<noteq> doc_rfc) (approvals s2) = []"
    using others by (simp add: exampleState_def createInitialState_def)
  then have all: "filter (\<lambda>a. documentType a = doc_rfc) (approvals s2) = approvals s2"
    by (simp add: filter_empty_conv filter_id_conv)
  show ?thesis
    using r1 r2 st one hash all by (simp add: toObject_def)
qed

text \<open>
  C10. On a stored state, \<open>recordCheckpointResponse\<close> returns and stores a state that
  differs from it in \<open>checkpointResponses\<close> only, and \<open>recordApproval\<close> one that differs in
  \<open>approvals\<close> and \<open>documentHashes\<close> only: \<open>project\<close>, \<open>version\<close>, \<open>currentStep\<close>,
  \<open>documentProgress\<close> and \<open>strictMode\<close> are those of the state before, and no other file
  of the disk changes.
\<close>

theorem C10_frame:
  assumes "d (getStateFilePath cwd) = Some (Json (toObject s))"
  shows "\<exists>s1 s2.
       recordCheckpointResponse sid dis cla mis now d cwd =
         Inr (toObject s1, d(getStateFilePath cwd \<mapsto> Json (toObject s1)))
     \<and> s1 = s\<lparr>checkpointResponses := checkpointResponses s1\<rparr>
     \<and> project s1 = project s \<and> version s1 = version s \<and> currentStep s1 = currentStep s
     \<and> documentProgress s1 = documentProgress s \<and> strictMode s1 = strictMode s
     \<and> approvals s1 = approvals s \<and> documentHashes s1 = documentHashes s
     \<and> recordApproval dt content now d cwd =
         Inr (toObject s2, d(getStateFilePath cwd \<mapsto> Json (toObject s2)))
     \<and> s2 = s\<lparr>approvals := approvals s2, documentHashes := documentHashes s2\<rparr>
     \<and> project s2 = project s \<and> version s2 = version s \<and> currentStep s2 = currentStep s
     \<and> documentProgress s2 = documentProgress s \<and> strictMode s2 = strictMode s
     \<and> checkpointResponses s2 = checkpointResponses s"
proof -
  let ?s1 = "s\<lparr>checkpointResponses := checkpointResponses s
             @ [\<lparr> stepId = sid, disagreements = dis, clarifications = cla,
                  missedConstraints = mis, respondedAt = now \<rparr>]\<rparr>"
  let ?s2 = "s\<lparr>approvals := filter (\<lambda>a. documentType a \<noteq> dt) (approvals s)
                         @ [\<lparr> documentType = dt, contentHash = calculateHash content,
                              approvedAt = now \<rparr>],
                documentHashes := (documentHashes s)(dt \<mapsto> calculateHash content)\<rparr>"
  have r1: "recordCheckpointResponse sid dis cla mis now d cwd =
         Inr (toObject ?s1, d(getStateFilePath cwd \<mapsto> Json (toObject ?s1)))"
    using assms by (rule recordCheckpointResponse_stored)
  have r2: "recordApproval dt content now d cwd =
         Inr (toObject ?s2, d(getStateFilePath cwd \<mapsto> Json (toObject ?s2)))"
    using assms by (rule recordApproval_stored)
  have f1: "?s1 = s\<lparr>checkpointResponses := checkpointResponses ?s1\<rparr>"
    by simp
  have f2: "?s2 = s\<lparr>approvals := approvals ?s2, documentHashes := documentHashes ?s2\<rparr>"
    by simp
  show ?thesis
    apply (rule exI [of _ ?s1])
    apply (rule exI [of _ ?s2])
    using r1 r2 f1 f2 apply simp
    done
qed

theorem C10_frame_witness:
  "(case recordCheckpointResponse ''rfc.problem'' None (Some ''why?'') None ''t1'' exampleDisk ''/work'' of
      Inl e \<Rightarrow> False
    | Inr (o1, d1) \<Rightarrow>
        obj_project o1 = Some exampleProject \<and> obj_currentStep o1 = Some rfc_goals
      \<and> obj_version o1 = Some 1 \<and> obj_strictMode o1 = Some False
      \<and> obj_approvals o1 = Some [] \<and> d1 (getStateFilePath ''/work'') = Some (Json o1))
   \<and> (case recordApproval doc_plan ''text'' ''t1'' exampleDisk ''/work'' of
      Inl e \<Rightarrow> False
    | Inr (o2, d2) \<Rightarrow>
        obj_project o2 = Some exampleProject \<and> obj_currentStep o2 = Some rfc_goals
      \<and> obj_version o2 = Some 1 \<and> obj_strictMode o2 = Some False
      \<and> obj_checkpointResponses o2 = Some [] \<and> d2 (getStateFilePath ''/work'') = Some (Json o2))"
proof -
  obtain s1 s2 where
      r1: "recordCheckpointResponse ''rfc.problem'' None (Some ''why?'') None ''t1'' exampleDisk ''/work'' =
         Inr (toObject s1, exampleDisk(getStateFilePath ''/work'' \<mapsto> Json (toObject s1)))"
  and p1: "project s1 = project exampleState" "version s1 = version exampleState"
          "currentStep s1 = currentStep exampleState" "strictMode s1 = strictMode exampleState"
          "approvals s1 = approvals exampleState"
  and r2: "recordApproval doc_plan ''text'' ''t1'' exampleDisk ''/work'' =
         Inr (toObject s2, exampleDisk(getStateFilePath ''/work'' \<mapsto> Json (toObject s2)))"
  and p2: "project s2 = project exampleState" "version s2 = version exampleState"
          "currentStep s2 = currentStep exampleState" "strictMode s2 = strictMode exampleState"
          "checkpointResponses s2 = checkpointResponses exampleState"
    using C10_frame
            [where d = exampleDisk and cwd = "''/work''" and s = exampleState
               and sid = "''rfc.problem''" and dis = None and cla = "Some ''why?''" and mis = None
               and now = "''t1''" and dt = doc_plan and content = "''text''",
             OF exampleDisk_stored]
    by blast
  show ?thesis
    using r1 r2 p1 p2
    by (simp add: toObject_def exampleState_def createInitialState_def)
qed

text \<open>
  C8. On a stored state \<open>s\<close>, \<open>updateState p\<close> succeeds; the object it returns is the one it
  stores; and each top-level property of that object is the value \<open>p\<close> gives it when \<open>p\<close>
  has the property (whole, nested objects included), and the property of \<open>s\<close> when \<open>p\<close>
  does not have it.
\<close>

theorem C8_updateState_shallow_merge:
  assumes "d (getStateFilePath cwd) = Some (Json (toObject s))"
  shows "\<exists>merged.
       updateState p d cwd = Inr (merged, d(getStateFilePath cwd \<mapsto> Json merged))
     \<and> obj_version merged =
         (case upd_version p of absent \<Rightarrow> Some (version s) | present v \<Rightarrow> v)
     \<and> obj_project merged =
         (case upd_project p of absent \<Rightarrow> Some (project s) | present v \<Rightarrow> v)
     \<and> obj_currentStep merged =
         (case upd_currentStep p of absent \<Rightarrow> Some (currentStep s) | present v \<Rightarrow> v)
     \<and> obj_checkpointResponses merged =
         (case upd_checkpointResponses p of
            absent \<Rightarrow> Some (checkpointResponses s) | present v \<Rightarrow> v)
     \<and> obj_approvals merged =
         (case upd_approvals p of absent \<Rightarrow> Some (approvals s) | present v \<Rightarrow> v)
     \<and> obj_documentHashes merged =
         (case upd_documentHashes p of absent \<Rightarrow> Some (documentHashes s) | present v \<Rightarrow> v)
     \<and> obj_documentProgress merged =
         (case upd_documentProgress p of
            absent \<Rightarrow> Some (documentProgress s) | present v \<Rightarrow> v)
     \<and> obj_strictMode merged =
         (case upd_strictMode p of absent \<Rightarrow> Some (strictMode s) | present v \<Rightarrow> v)"
proof -
  have sp: "spreadOver old e = (case e of absent \<Rightarrow> old | present v \<Rightarrow> v)" for old :: 'a and e
    by (cases e) simp_all
  have "updateState p d cwd =
          Inr (spread (toObject s) p, d(getStateFilePath cwd \<mapsto> Json (spread (toObject s) p)))"
    using assms by (simp add: updateState_def loadState_def saveState_def Let_def)
  then show ?thesis
    by (simp add: spread_def toObject_def sp)
qed

theorem C8_updateState_shallow_merge_witness:
  "(case updateState
           (noUpdates\<lparr>upd_documentProgress :=
                        present (Some (documentProgress (createInitialState exampleProject))),
                      upd_strictMode := present (Some True)\<rparr>)
           progressedDisk ''/work'' of
      Inl e \<Rightarrow> False
    | Inr (m, d1) \<Rightarrow>
        obj_documentProgress m = Some (documentProgress (createInitialState exampleProject))
      \<and> obj_strictMode m = Some True
      \<and> obj_currentStep m = Some rfc_goals
      \<and> obj_project m = Some exampleProject
      \<and> obj_approvals m = Some []
      \<and> d1 (getStateFilePath ''/work'') = Some (Json m))"
proof -
  have st: "progressedDisk (getStateFilePath ''/work'') = Some (Json (toObject progressedState))"
    by (simp add: progressedDisk_def)
  obtain m where
      r: "updateState
            (noUpdates\<lparr>upd_documentProgress :=
                        present (Some (documentProgress (createInitialState exampleProject))),
                      upd_strictMode := present (Some True)\<rparr>)
            progressedDisk ''/work'' =
          Inr (m, progressedDisk(getStateFilePath ''/work'' \<mapsto> Json m))"
  and f: "obj_documentProgress m = Some (documentProgress (createInitialState exampleProject))"
         "obj_strictMode m = Some True"
         "obj_currentStep m = Some (currentStep progressedState)"
         "obj_project m = Some (project progressedState)"
         "obj_approvals m = Some (approvals progressedState)"
    using C8_updateState_shallow_merge
            [where d = progressedDisk and cwd = "''/work''" and s = progressedState
               and p = "noUpdates\<lparr>upd_documentProgress :=
                        present (Some (documentProgress (createInitialState exampleProject))),
                      upd_strictMode := present (Some True)\<rparr>",
             OF st]
    by (auto simp: noUpdates_def)
  show ?thesis
    using r f by (simp add: progressedState_def exampleState_def createInitialState_def)
qed

text \<open>
  C6 fails as stated: the file \<^verbatim>\<open>{ "version": 1 }\<close> parses, and \<open>loadState\<close> returns the
  object as it is, without \<open>approvals\<close>, \<open>currentStep\<close> and the other properties; a later
  \<open>recordApproval\<close> on it throws a \<open>TypeError\<close>.
\<close>

theorem C6_counterexample:
  "loadState partialDisk ''/work'' = Inr partialObject
   \<and> obj_version partialObject = Some 1
   \<and> obj_project partialObject = None
   \<and> obj_currentStep partialObject = None
   \<and> obj_approvals partialObject = None
   \<and> recordApproval doc_rfc ''text'' ''t1'' partialDisk ''/work'' = Inl TypeError"
  by (simp add: loadState_def partialDisk_def partialObject_def recordApproval_def Let_def)

text \<open>
  C6, amended. \<open>loadState\<close> fails, with the one error \<open>NoProjectFound\<close>, exactly when the
  state file is absent or its content is not JSON text; it has no other failure; and when
  the content parses it returns the parsed object whole and unchecked.
\<close>

theorem C6_loadState_outcomes:
  "(loadState d cwd = Inl NoProjectFound) =
     (d (getStateFilePath cwd) = None \<or> d (getStateFilePath cwd) = Some Unparsable)
   \<and> (loadState d cwd = Inl e \<longrightarrow> e = NoProjectFound)
   \<and> (d (getStateFilePath cwd) = Some (Json obj) \<longrightarrow> loadState d cwd = Inr obj)"
  by (auto simp: loadState_def split: option.splits fileContent.splits)

theorem C6_loadState_outcomes_witness:
  "loadState Map.empty ''/work'' = Inl NoProjectFound
   \<and> loadState corruptDisk ''/work'' = Inl NoProjectFound
   \<and> loadState exampleDisk ''/work'' = Inr (toObject exampleState)"
  using C6_loadState_outcomes [of Map.empty "''/work''" NoProjectFound "toObject exampleState"]
        C6_loadState_outcomes [of corruptDisk "''/work''" NoProjectFound "toObject exampleState"]
        C6_loadState_outcomes [of exampleDisk "''/work''" NoProjectFound "toObject exampleState"]
  by (simp add: corruptDisk_def exampleDisk_def)

text \<open>
  C1 fails as stated: on a disk that holds a record, \<open>initializeProject\<close> succeeds and the
  record is replaced by a fresh initial state.
\<close>

theorem C1_counterexample:
  "projectExists exampleDisk ''/work''
   \<and> loadState exampleDisk ''/work'' = Inr (toObject exampleState)
   \<and> fst (initializeProject exampleProject exampleDisk ''/work'') = createInitialState exampleProject
   \<and> loadState (snd (initializeProject exampleProject exampleDisk ''/work'')) ''/work'' =
       Inr (toObject (createInitialState exampleProject))
   \<and> toObject (createInitialState exampleProject) \<noteq> toObject exampleState"
  by (simp add: projectExists_def exampleDisk_def loadState_def initializeProject_def Let_def
        toObject_def exampleState_def createInitialState_def)

text \<open>
  C1, amended. \<open>initializeProject\<close> makes no check: at every location it returns the fresh
  initial state and writes it as the record, whatever was there. The guard is in the init
  command: when a record exists, the command exits with status 1 and the disk is
  unchanged; when none exists, it completes and the record is the initial state, with
  \<open>strictMode\<close> as the option \<open>--strict\<close> says.
\<close>

theorem C1_init_guard:
  "fst (initializeProject p d cwd) = createInitialState p
   \<and> loadState (snd (initializeProject p d cwd)) cwd = Inr (toObject (createInitialState p))
   \<and> (projectExists d cwd \<longrightarrow> initCommand strict p d cwd = (Exit 1, d))
   \<and> (\<not> projectExists d cwd \<longrightarrow>
        fst (initCommand strict p d cwd) = Completed
        \<and> loadState (snd (initCommand strict p d cwd)) cwd =
            Inr (toObject ((createInitialState p)\<lparr>strictMode := strict\<rparr>)))"
  by (simp add: initializeProject_def initCommand_def loadState_def saveState_def Let_def
        createInitialState_def)

theorem C1_init_guard_witness:
  "initCommand True exampleProject exampleDisk ''/work'' = (Exit 1, exampleDisk)
   \<and> fst (initCommand True exampleProject Map.empty ''/work'') = Completed
   \<and> loadState (snd (initCommand True exampleProject Map.empty ''/work'')) ''/work'' =
       Inr (toObject ((createInitialState exampleProject)\<lparr>strictMode := True\<rparr>))"
  using C1_init_guard [of exampleProject exampleDisk "''/work''" True]
        C1_init_guard [of exampleProject Map.empty "''/work''" True]
  by (simp add: projectExists_def exampleDisk_def)

text \<open>
  C2 fails as stated: after \<open>recordApproval\<close> of the RFC with the text \<^verbatim>\<open>"x\r\n"\<close>, the
  normalised text \<open>x\<close> counts as changed, although the normalising comparison
  \<open>contentEquals\<close> holds the two texts equal.
\<close>

theorem C2_counterexample:
  "trim (replaceCRLF crlfText) = ''x''
   \<and> contentEquals crlfText ''x''
   \<and> recordApproval doc_rfc crlfText ''t1'' exampleDisk ''/work'' =
       Inr (toObject approvedState,
            exampleDisk(getStateFilePath ''/work'' \<mapsto> Json (toObject approvedState)))
   \<and> hasDocumentChanged approvedState doc_rfc (trim (replaceCRLF crlfText))"
proof -
  have n: "trim (replaceCRLF crlfText) = ''x''"
    by (rule normalize_crlfText)
  have n2: "trim (replaceCRLF ''x'') = ''x''"
    by (simp add: trim_def isWhiteSpace_def)
  have e: "contentEquals crlfText ''x''"
    unfolding contentEquals_def calculateContentHash_def Let_def n n2 by (rule refl)
  have r: "recordApproval doc_rfc crlfText ''t1'' exampleDisk ''/work'' =
       Inr (toObject approvedState,
            exampleDisk(getStateFilePath ''/work'' \<mapsto> Json (toObject approvedState)))"
    using recordApproval_stored [where d = exampleDisk and cwd = "''/work''" and s = exampleState
            and dt = doc_rfc and content = crlfText and now = "''t1''", OF exampleDisk_stored]
    by (simp add: approvedState_def exampleState_def createInitialState_def)
  have h: "hasDocumentChanged approvedState doc_rfc ''x''"
    by (simp add: hasDocumentChanged_def approvedState_def calculateHash_x calculateHash_crlfText)
  show ?thesis
    using n e r h by simp
qed

text \<open>
  C2, amended. After \<open>recordApproval dt A\<close> on a stored state, the approval of \<open>dt\<close> holds
  the raw hash of \<open>A\<close>, and \<open>hasDocumentChanged\<close> compares raw hashes: for a text \<open>B\<close> it is
  false exactly when the raw hash of \<open>B\<close> equals the raw hash of \<open>A\<close>, so it is false for
  \<open>A\<close> itself.
\<close>

theorem C2_change_detection_raw:
  assumes "d (getStateFilePath cwd) = Some (Json (toObject s))"
  shows "\<exists>s1 d1.
       recordApproval dt A now d cwd = Inr (toObject s1, d1)
     \<and> find (\<lambda>a. documentType a = dt) (approvals s1) =
         Some \<lparr> documentType = dt, contentHash = calculateHash A, approvedAt = now \<rparr>
     \<and> hasDocumentChanged s1 dt B = (calculateHash B \<noteq> calculateHash A)
     \<and> \<not> hasDocumentChanged s1 dt A"
proof -
  let ?s1 = "s\<lparr>approvals := filter (\<lambda>a. documentType a \<noteq> dt) (approvals s)
                         @ [\<lparr> documentType = dt, contentHash = calculateHash A,
                              approvedAt = now \<rparr>],
                documentHashes := (documentHashes s)(dt \<mapsto> calculateHash A)\<rparr>"
  have r: "recordApproval dt A now d cwd =
             Inr (toObject ?s1, d(getStateFilePath cwd \<mapsto> Json (toObject ?s1)))"
    using assms by (rule recordApproval_stored)
  have f: "find (\<lambda>a. documentType a = dt) (approvals ?s1) =
         Some \<lparr> documentType = dt, contentHash = calculateHash A, approvedAt = now \<rparr>"
    using find_after_filter [of "\<lambda>a. documentType a = dt"
            "\<lparr> documentType = dt, contentHash = calculateHash A, approvedAt = now \<rparr>" "approvals s"]
    by simp
  have c: "hasDocumentChanged ?s1 dt X = (calculateHash X \<noteq> calculateHash A)" for X
    using f by (auto simp: hasDocumentChanged_def Let_def)
  show ?thesis
    using r f c by blast
qed

theorem C2_change_detection_raw_witness:
  "recordApproval doc_rfc crlfText ''t1'' exampleDisk ''/work'' =
       Inr (toObject approvedState,
            exampleDisk(getStateFilePath ''/work'' \<mapsto> Json (toObject approvedState)))
   \<and> find (\<lambda>a. documentType a = doc_rfc) (approvals approvedState) =
       Some \<lparr> documentType = doc_rfc, contentHash = calculateHash crlfText, approvedAt = ''t1'' \<rparr>
   \<and> \<not> hasDocumentChanged approvedState doc_rfc crlfText"
proof -
  obtain s1 d1 where
      r: "recordApproval doc_rfc crlfText ''t1'' exampleDisk ''/work'' = Inr (toObject s1, d1)"
  and f: "find (\<lambda>a. documentType a = doc_rfc) (approvals s1) =
         Some \<lparr> documentType = doc_rfc, contentHash = calculateHash crlfText, approvedAt = ''t1'' \<rparr>"
  and c: "\<not> hasDocumentChanged s1 doc_rfc crlfText"
    using C2_change_detection_raw
            [where d = exampleDisk and cwd = "''/work''" and s = exampleState and dt = doc_rfc
               and A = crlfText and now = "''t1''", OF exampleDisk_stored]
    by blast
  have r': "recordApproval doc_rfc crlfText ''t1'' exampleDisk ''/work'' =
       Inr (toObject approvedState,
            exampleDisk(getStateFilePath ''/work'' \<mapsto> Json (toObject approvedState)))"
    using recordApproval_stored [where d = exampleDisk and cwd = "''/work''" and s = exampleState
            and dt = doc_rfc and content = crlfText and now = "''t1''", OF exampleDisk_stored]
    by (simp add: approvedState_def exampleState_def createInitialState_def)
  have "toObject s1 = toObject approvedState"
    using r r' by simp
  then have "s1 = approvedState"
    by (cases s1, cases approvedState) (simp add: toObject_def)
  then show ?thesis
    using r' f c by simp
qed

end
